theory Spec2Isabelle
  imports Main
begin

section \<open>Python values used by the synchroniser\<close>

text \<open>
  The exceptions that can leave the code of \<^verbatim>\<open>main.py\<close>. The first five are raised
  by Python itself; \<open>BackendUnavailable\<close> and \<open>CalendarNotFound\<close> stand for the
  failures of a remote call (CalDAV or the Google API), which the program never catches.
\<close>

datatype error =
    OverflowError
  | ValueError
  | TypeError
  | AttributeError
  | KeyError
  | BackendUnavailable
  | CalendarNotFound

subsection \<open>Dates\<close>

text \<open>
  A \<^verbatim>\<open>datetime.date\<close> is represented by its proleptic Gregorian ordinal
  (\<^verbatim>\<open>date.toordinal()\<close>): day 1 is 0001-01-01 and day \<open>MAXORDINAL\<close> is
  9999-12-31. \<open>ymd2ord\<close> and \<open>ord2ymd\<close> are the conversions of the standard
  library, used to read and to print calendar dates.
\<close>

definition MAXORDINAL :: int where
  "MAXORDINAL = 3652059"

definition is_leap :: "int \<Rightarrow> bool" where
  "is_leap y = (y mod 4 = 0 \<and> (y mod 100 \<noteq> 0 \<or> y mod 400 = 0))"

definition days_before_year :: "int \<Rightarrow> int" where
  "days_before_year y = (y - 1) * 365 + (y - 1) div 4 - (y - 1) div 100 + (y - 1) div 400"

definition DAYS_IN_MONTH :: "int list" where
  "DAYS_IN_MONTH = [0, 31, 28, 31, 30, 31, 30, 31, 31, 30, 31, 30, 31]"

definition DAYS_BEFORE_MONTH :: "int list" where
  "DAYS_BEFORE_MONTH = [0, 0, 31, 59, 90, 120, 151, 181, 212, 243, 273, 304, 334]"

definition days_in_month :: "int \<Rightarrow> int \<Rightarrow> int" where
  "days_in_month y m = (if m = 2 \<and> is_leap y then 29 else DAYS_IN_MONTH ! nat m)"

definition days_before_month :: "int \<Rightarrow> int \<Rightarrow> int" where
  "days_before_month y m =
     DAYS_BEFORE_MONTH ! nat m + (if m > 2 \<and> is_leap y then 1 else 0)"

definition ymd2ord :: "int \<Rightarrow> int \<Rightarrow> int \<Rightarrow> int" where
  "ymd2ord y m d = days_before_year y + days_before_month y m + d"

definition ord2ymd :: "int \<Rightarrow> int \<times> int \<times> int" where
  "ord2ymd n =
     (let n0 = n - 1;
          n400 = n0 div 146097; r400 = n0 mod 146097;
          n100 = r400 div 36524; r100 = r400 mod 36524;
          n4 = r100 div 1461; r4 = r100 mod 1461;
          n1 = r4 div 365; r1 = r4 mod 365;
          y = n400 * 400 + 1 + n100 * 100 + n4 * 4 + n1
      in if n1 = 4 \<or> n100 = 4 then (y - 1, 12, 31)
         else
           let leapyear = (n1 = 3 \<and> (n4 \<noteq> 24 \<or> n100 = 3));
               m = (r1 + 50) div 32;
               preceding = DAYS_BEFORE_MONTH ! nat m + (if m > 2 \<and> leapyear then 1 else 0)
           in if preceding > r1
              then (y, m - 1,
                    r1 - (preceding - (DAYS_IN_MONTH ! nat (m - 1)
                                       + (if m - 1 = 2 \<and> leapyear then 1 else 0))) + 1)
              else (y, m, r1 - preceding + 1))"

text \<open>
  \<^verbatim>\<open>date + timedelta(days=n)\<close>: building the \<^verbatim>\<open>timedelta\<close> fails beyond
  999999999 days, and the sum fails when it leaves the years 1 to 9999.
\<close>

definition date_add_days :: "int \<Rightarrow> int \<Rightarrow> error + int" where
  "date_add_days d n =
     (if \<bar>n\<bar> > 999999999 then Inl OverflowError
      else if 0 < d + n \<and> d + n \<le> MAXORDINAL then Inr (d + n)
      else Inl OverflowError)"

subsection \<open>Datetimes\<close>

text \<open>
  A \<^verbatim>\<open>datetime.datetime\<close>: the date as its ordinal, the wall-clock fields, and
  \<open>tzinfo\<close> as the UTC offset in microseconds (\<open>None\<close> for a naive value,
  \<open>Some 0\<close> for UTC).
\<close>

record datetime =
  ordinal :: int
  hour :: int
  minute :: int
  second :: int
  microsecond :: int
  tzinfo :: "int option"

type_synonym pytime = "int \<times> int \<times> int \<times> int"

definition time_min :: pytime where
  "time_min = (0, 0, 0, 0)"

definition time_max :: pytime where
  "time_max = (23, 59, 59, 999999)"

definition utc :: "int option" where
  "utc = Some 0"

definition combine :: "int \<Rightarrow> pytime \<Rightarrow> datetime" where
  "combine d t =
     (case t of (h, mi, s, us) \<Rightarrow>
        \<lparr>ordinal = d, hour = h, minute = mi, second = s, microsecond = us, tzinfo = None\<rparr>)"

definition replace_tzinfo :: "datetime \<Rightarrow> int option \<Rightarrow> datetime" where
  "replace_tzinfo d tz = d\<lparr>tzinfo := tz\<rparr>"

text \<open>The wall clock of a datetime in microseconds since the start of day 0.\<close>

definition wall_us :: "datetime \<Rightarrow> int" where
  "wall_us d =
     ((((ordinal d * 24 + hour d) * 60 + minute d) * 60 + second d) * 1000000 + microsecond d)"

definition of_wall_us :: "int \<Rightarrow> int option \<Rightarrow> datetime" where
  "of_wall_us n tz =
     \<lparr>ordinal = n div 1000000 div 60 div 60 div 24,
      hour = n div 1000000 div 60 div 60 mod 24,
      minute = n div 1000000 div 60 mod 60,
      second = n div 1000000 mod 60,
      microsecond = n mod 1000000,
      tzinfo = tz\<rparr>"

text \<open>The instant an aware datetime denotes, in microseconds; a naive one is read as UTC.\<close>

definition utc_us :: "datetime \<Rightarrow> int" where
  "utc_us d = wall_us d - (case tzinfo d of None \<Rightarrow> 0 | Some off \<Rightarrow> off)"

text \<open>
  \<^verbatim>\<open>d.astimezone(timezone.utc)\<close> for an aware \<open>d\<close> with offset \<open>off\<close>: the
  library computes \<^verbatim>\<open>(d - offset).replace(tzinfo=utc)\<close>, and the subtraction
  raises when the result leaves the years 1 to 9999.
\<close>

definition astimezone_utc :: "datetime \<Rightarrow> int \<Rightarrow> error + datetime" where
  "astimezone_utc d off =
     (let n = wall_us d - off; r = of_wall_us n utc
      in if 0 < ordinal r \<and> ordinal r \<le> MAXORDINAL then Inr r else Inl OverflowError)"

text \<open>
  Comparison of datetimes: two aware values compare as instants, two naive ones by
  wall clock, and a naive with an aware one is a \<^verbatim>\<open>TypeError\<close>.
\<close>

definition dt_less :: "datetime \<Rightarrow> datetime \<Rightarrow> error + bool" where
  "dt_less a b =
     (case (tzinfo a, tzinfo b) of
        (None, None) \<Rightarrow> Inr (wall_us a < wall_us b)
      | (Some x, Some y) \<Rightarrow> Inr (utc_us a < utc_us b)
      | _ \<Rightarrow> Inl TypeError)"

subsection \<open>The time window of the manager\<close>

record Config =
  past_days :: int
  future_days :: int

record CalendarSyncManager =
  time_limit :: datetime
  time_limit_future :: datetime

text \<open>
  \<^verbatim>\<open>CalendarSyncManager.__init__\<close>, the part that computes the window; \<open>now\<close> is
  the value of \<^verbatim>\<open>datetime.now(pytz.utc)\<close>.
\<close>

definition CalendarSyncManager_init :: "datetime \<Rightarrow> Config \<Rightarrow> error + CalendarSyncManager" where
  "CalendarSyncManager_init now config =
     (let today = ordinal now in
      case date_add_days today (- past_days config) of
        Inl e \<Rightarrow> Inl e
      | Inr lo \<Rightarrow>
          (case date_add_days today (future_days config) of
             Inl e \<Rightarrow> Inl e
           | Inr hi \<Rightarrow>
               Inr \<lparr>time_limit = replace_tzinfo (combine lo time_min) utc,
                    time_limit_future = replace_tzinfo (combine hi time_max) utc\<rparr>))"

subsection \<open>ISO 8601 text\<close>

definition digit :: "int \<Rightarrow> char" where
  "digit n = ''0123456789'' ! nat n"

definition d2 :: "int \<Rightarrow> string" where
  "d2 n = [digit (n div 10 mod 10), digit (n mod 10)]"

definition d4 :: "int \<Rightarrow> string" where
  "d4 n = [digit (n div 1000 mod 10), digit (n div 100 mod 10)] @ d2 n"

definition d6 :: "int \<Rightarrow> string" where
  "d6 n = [digit (n div 100000 mod 10), digit (n div 10000 mod 10)] @ d4 n"

definition format_offset :: "int \<Rightarrow> string" where
  "format_offset off =
     (let a = \<bar>off\<bar>;
          hh = a div 3600000000; mm = a div 60000000 mod 60;
          ss = a div 1000000 mod 60; us = a mod 1000000
      in (if off < 0 then ''-'' else ''+'') @ d2 hh @ '':'' @ d2 mm
         @ (if ss \<noteq> 0 \<or> us \<noteq> 0 then '':'' @ d2 ss else [])
         @ (if us \<noteq> 0 then ''.'' @ d6 us else []))"

text \<open>
  \<^verbatim>\<open>datetime.isoformat()\<close>: \<^verbatim>\<open>YYYY-MM-DDTHH:MM:SS\<close>, the microseconds when they
  are not zero, and the offset of an aware value.
\<close>

definition isoformat :: "datetime \<Rightarrow> string" where
  "isoformat d =
     (case ord2ymd (ordinal d) of (y, m, dd) \<Rightarrow>
        d4 y @ ''-'' @ d2 m @ ''-'' @ d2 dd @ ''T''
        @ d2 (hour d) @ '':'' @ d2 (minute d) @ '':'' @ d2 (second d)
        @ (if microsecond d \<noteq> 0 then ''.'' @ d6 (microsecond d) else [])
        @ (case tzinfo d of None \<Rightarrow> [] | Some off \<Rightarrow> format_offset off))"

text \<open>
  \<^verbatim>\<open>datetime.fromisoformat\<close> as Python 3.7 to 3.10 define it:
  \<^verbatim>\<open>YYYY-MM-DD[*HH[:MM[:SS[.fff[fff]]]][+HH:MM[:SS[.ffffff]]]]\<close>, every other text
  being a \<^verbatim>\<open>ValueError\<close>. Numbers are runs of decimal digits. Python 3.11 and later
  read more forms (a final \<^verbatim>\<open>Z\<close> among them) and refuse a date followed by a
  separator alone; on the texts \<^verbatim>\<open>isoformat\<close> writes, which are the ones the
  program passes, all versions agree.
\<close>

definition digit_val :: "char \<Rightarrow> int option" where
  "digit_val c =
     map_of [(CHR ''0'', 0), (CHR ''1'', 1), (CHR ''2'', 2), (CHR ''3'', 3), (CHR ''4'', 4),
             (CHR ''5'', 5), (CHR ''6'', 6), (CHR ''7'', 7), (CHR ''8'', 8), (CHR ''9'', 9)] c"

fun parse_digits :: "string \<Rightarrow> int \<Rightarrow> int option" where
  "parse_digits [] acc = Some acc"
| "parse_digits (c # cs) acc =
     (case digit_val c of None \<Rightarrow> None | Some v \<Rightarrow> parse_digits cs (acc * 10 + v))"

definition parse_int :: "string \<Rightarrow> error + int" where
  "parse_int s =
     (if s = [] then Inl ValueError
      else case parse_digits s 0 of None \<Rightarrow> Inl ValueError | Some n \<Rightarrow> Inr n)"

definition parse_isoformat_date :: "string \<Rightarrow> error + (int \<times> int \<times> int)" where
  "parse_isoformat_date s =
     (if length s \<noteq> 10 then Inl ValueError
      else case parse_int (take 4 s) of
        Inl e \<Rightarrow> Inl e
      | Inr y \<Rightarrow>
          if s ! 4 \<noteq> CHR ''-'' then Inl ValueError
          else (case parse_int (take 2 (drop 5 s)) of
            Inl e \<Rightarrow> Inl e
          | Inr m \<Rightarrow>
              if s ! 7 \<noteq> CHR ''-'' then Inl ValueError
              else (case parse_int (drop 8 s) of
                Inl e \<Rightarrow> Inl e
              | Inr d \<Rightarrow> Inr (y, m, d))))"

text \<open>The fraction of a second: three or six digits after the point.\<close>

definition parse_ff :: "string \<Rightarrow> error + int" where
  "parse_ff s =
     (case s of
        [] \<Rightarrow> Inr 0
      | c # f \<Rightarrow>
          if c \<noteq> CHR ''.'' then Inl ValueError
          else if length f = 3 then (case parse_int f of Inl e \<Rightarrow> Inl e | Inr n \<Rightarrow> Inr (n * 1000))
          else if length f = 6 then parse_int f
          else Inl ValueError)"

definition parse_hh_mm_ss_ff :: "string \<Rightarrow> error + (int \<times> int \<times> int \<times> int)" where
  "parse_hh_mm_ss_ff s =
     (case parse_int (take 2 s) of
        Inl e \<Rightarrow> Inl e
      | Inr h \<Rightarrow>
          if length s < 2 then Inl ValueError
          else if length s = 2 then Inr (h, 0, 0, 0)
          else if s ! 2 \<noteq> CHR '':'' then Inl ValueError
          else (case parse_int (take 2 (drop 3 s)) of
            Inl e \<Rightarrow> Inl e
          | Inr mi \<Rightarrow>
              if length s < 5 then Inl ValueError
              else if length s = 5 then Inr (h, mi, 0, 0)
              else if s ! 5 \<noteq> CHR '':'' then Inl ValueError
              else (case parse_int (take 2 (drop 6 s)) of
                Inl e \<Rightarrow> Inl e
              | Inr sec \<Rightarrow>
                  if length s < 8 then Inl ValueError
                  else (case parse_ff (drop 8 s) of
                    Inl e \<Rightarrow> Inl e
                  | Inr us \<Rightarrow> Inr (h, mi, sec, us)))))"

text \<open>
  The offset starts at the first \<^verbatim>\<open>-\<close> of the time text or, when there is none,
  at its first \<^verbatim>\<open>+\<close>; an offset of 24 hours or more is refused.
\<close>

definition split_offset :: "string \<Rightarrow> string \<times> (char \<times> string) option" where
  "split_offset t =
     (if CHR ''-'' \<in> set t
      then (takeWhile (\<lambda>c. c \<noteq> CHR ''-'') t,
            Some (CHR ''-'', tl (dropWhile (\<lambda>c. c \<noteq> CHR ''-'') t)))
      else if CHR ''+'' \<in> set t
      then (takeWhile (\<lambda>c. c \<noteq> CHR ''+'') t,
            Some (CHR ''+'', tl (dropWhile (\<lambda>c. c \<noteq> CHR ''+'') t)))
      else (t, None))"

definition parse_isoformat_time :: "string \<Rightarrow> error + (pytime \<times> int option)" where
  "parse_isoformat_time t =
     (if length t < 2 then Inl ValueError
      else case split_offset t of (timestr, tzpart) \<Rightarrow>
        (case parse_hh_mm_ss_ff timestr of
           Inl e \<Rightarrow> Inl e
         | Inr comps \<Rightarrow>
             (case tzpart of
                None \<Rightarrow> Inr (comps, None)
              | Some (sign, tzstr) \<Rightarrow>
                  if length tzstr \<notin> {5, 8, 15} then Inl ValueError
                  else (case parse_hh_mm_ss_ff tzstr of
                    Inl e \<Rightarrow> Inl e
                  | Inr (h, mi, sec, us) \<Rightarrow>
                      let off = ((h * 60 + mi) * 60 + sec) * 1000000 + us in
                      if off \<ge> 86400000000 then Inl ValueError
                      else Inr (comps, Some (if sign = CHR ''-'' then - off else off))))))"

text \<open>The constructor \<^verbatim>\<open>datetime(y, m, d, h, mi, s, us, tz)\<close> with its range checks.\<close>

definition datetime_new ::
  "int \<Rightarrow> int \<Rightarrow> int \<Rightarrow> pytime \<Rightarrow> int option \<Rightarrow> error + datetime" where
  "datetime_new y m d t tz =
     (case t of (h, mi, s, us) \<Rightarrow>
        if 1 \<le> y \<and> y \<le> 9999 \<and> 1 \<le> m \<and> m \<le> 12 \<and> 1 \<le> d \<and> d \<le> days_in_month y m
           \<and> 0 \<le> h \<and> h \<le> 23 \<and> 0 \<le> mi \<and> mi \<le> 59 \<and> 0 \<le> s \<and> s \<le> 59
           \<and> 0 \<le> us \<and> us \<le> 999999
        then Inr \<lparr>ordinal = ymd2ord y m d, hour = h, minute = mi, second = s,
                  microsecond = us, tzinfo = tz\<rparr>
        else Inl ValueError)"

definition fromisoformat :: "string \<Rightarrow> error + datetime" where
  "fromisoformat s =
     (case parse_isoformat_date (take 10 s) of
        Inl e \<Rightarrow> Inl e
      | Inr (y, m, d) \<Rightarrow>
          (case (if drop 11 s = [] then Inr (time_min, None)
                 else parse_isoformat_time (drop 11 s)) of
             Inl e \<Rightarrow> Inl e
           | Inr (t, tz) \<Rightarrow> datetime_new y m d t tz))"

section \<open>Events and dictionaries\<close>

text \<open>
  The dictionary both clients build for one event (\<^verbatim>\<open>"name"\<close>, \<^verbatim>\<open>"description"\<close>,
  \<^verbatim>\<open>"start"\<close>, \<^verbatim>\<open>"end"\<close>). The name is \<open>None\<close> when Python's \<^verbatim>\<open>None\<close> is stored
  there; start and end are ISO 8601 texts.
\<close>

record event =
  name :: "string option"
  description :: string
  start :: string
  end' :: string

text \<open>
  A Python \<^verbatim>\<open>dict\<close> with text keys: the items in insertion order, every key once.
  Assigning to a key that is present replaces its value in place.
\<close>

type_synonym 'v dict = "(string \<times> 'v) list"

fun dict_set :: "'v dict \<Rightarrow> string \<Rightarrow> 'v \<Rightarrow> 'v dict" where
  "dict_set [] k v = [(k, v)]"
| "dict_set ((k', v') # d) k v =
     (if k' = k then (k', v) # d else (k', v') # dict_set d k v)"

definition dict_keys :: "'v dict \<Rightarrow> string list" where
  "dict_keys d = map fst d"

text \<open>\<^verbatim>\<open>{**a, **b}\<close>: a copy of \<open>a\<close> into which the items of \<open>b\<close> are assigned in order.\<close>

definition dict_merge :: "'v dict \<Rightarrow> 'v dict \<Rightarrow> 'v dict" where
  "dict_merge a b = fold (\<lambda>(k, v) d. dict_set d k v) b a"

text \<open>
  \<^verbatim>\<open>set(all_events.keys()) - set(own.keys())\<close>. Python fixes no iteration order for a
  set; the keys are listed here in the order of \<open>all_events\<close>, and the properties below
  speak of the set of these keys or of a single key.
\<close>

definition missing_keys :: "'v dict \<Rightarrow> 'v dict \<Rightarrow> string list" where
  "missing_keys all_events own =
     filter (\<lambda>k. k \<notin> set (dict_keys own)) (dict_keys all_events)"

text \<open>How an f-string renders a name: \<^verbatim>\<open>None\<close> becomes the text \<^verbatim>\<open>None\<close>.\<close>

definition fstr :: "string option \<Rightarrow> string" where
  "fstr v = (case v of None \<Rightarrow> ''None'' | Some s \<Rightarrow> s)"

section \<open>The two remote calendars\<close>

text \<open>
  The value of \<^verbatim>\<open>component.get("dtstart").dt\<close>: a date for an all-day event, a
  datetime otherwise.
\<close>

datatype dtvalue = DateValue int | DateTimeValue datetime

text \<open>A VEVENT component as \<^verbatim>\<open>icalendar\<close> presents it; a missing property is \<open>None\<close>.\<close>

record vevent =
  summary :: "string option"
  vdescription :: "string option"
  dtstart :: "dtvalue option"
  dtend :: "dtvalue option"

text \<open>
  The Yandex calendar: the calendar objects it holds, each a list of VEVENT components,
  and the failure, if any, with which it answers every request.
\<close>

record yandex_calendar =
  y_fault :: "error option"
  y_objects :: "vevent list list"

text \<open>An item of the Google calendar: \<^verbatim>\<open>summary\<close>, \<^verbatim>\<open>description\<close>,
  \<^verbatim>\<open>start.dateTime\<close> and \<^verbatim>\<open>end.dateTime\<close>, each possibly absent.\<close>

record gitem =
  g_summary :: "string option"
  g_description :: "string option"
  g_start :: "string option"
  g_end :: "string option"

record google_calendar =
  g_fault :: "error option"
  g_items :: "gitem list"

text \<open>What a run does that can be observed from outside, in the order it happens.\<close>

datatype action =
    YandexSearch datetime datetime
  | GoogleList datetime datetime
  | PrintTotals nat nat nat
  | PrintMissingYandex "string list"
  | PrintMissingGoogle "string list"
  | YandexAddEvent event
  | GoogleAddEvent event
  | PrintSkipped "string option" datetime

record world =
  yandex :: yandex_calendar
  google :: google_calendar
  journal :: "action list"

definition emit :: "action \<Rightarrow> world \<Rightarrow> world" where
  "emit a w = w\<lparr>journal := journal w @ [a]\<rparr>"

subsection \<open>What the services answer\<close>

text \<open>
  A CalDAV time-range query returns the calendar objects with a component that overlaps
  the range (RFC 4791, 9.9): one that starts before the range ends and ends after the
  range starts. A date stands for its midnight.
\<close>

definition dtvalue_us :: "dtvalue \<Rightarrow> int" where
  "dtvalue_us v = (case v of DateValue d \<Rightarrow> d * 86400000000 | DateTimeValue t \<Rightarrow> utc_us t)"

definition vevent_overlaps :: "vevent \<Rightarrow> datetime \<Rightarrow> datetime \<Rightarrow> bool" where
  "vevent_overlaps c s e =
     (case dtstart c of
        None \<Rightarrow> False
      | Some a \<Rightarrow>
          (case dtend c of
             None \<Rightarrow> utc_us s \<le> dtvalue_us a \<and> dtvalue_us a < utc_us e
           | Some b \<Rightarrow> dtvalue_us a < utc_us e \<and> utc_us s < dtvalue_us b))"

definition calendar_search ::
  "yandex_calendar \<Rightarrow> datetime \<Rightarrow> datetime \<Rightarrow> error + vevent list list" where
  "calendar_search cal s e =
     (case y_fault cal of
        Some err \<Rightarrow> Inl err
      | None \<Rightarrow> Inr (filter (\<lambda>obj. \<exists>c \<in> set obj. vevent_overlaps c s e) (y_objects cal)))"

definition calendar_add_event :: "yandex_calendar \<Rightarrow> vevent \<Rightarrow> error + yandex_calendar" where
  "calendar_add_event cal c =
     (case y_fault cal of
        Some err \<Rightarrow> Inl err
      | None \<Rightarrow> Inr (cal\<lparr>y_objects := y_objects cal @ [[c]]\<rparr>))"

text \<open>
  \<^verbatim>\<open>events().list(timeMin, timeMax)\<close> returns the items that end after \<open>timeMin\<close> and
  start before \<open>timeMax\<close>; an item without readable times is returned as well.
\<close>

definition instant_of :: "string option \<Rightarrow> int option" where
  "instant_of t =
     (case t of
        None \<Rightarrow> None
      | Some s \<Rightarrow> (case fromisoformat s of Inl e \<Rightarrow> None | Inr d \<Rightarrow> Some (utc_us d)))"

definition gitem_overlaps :: "gitem \<Rightarrow> datetime \<Rightarrow> datetime \<Rightarrow> bool" where
  "gitem_overlaps it tmin tmax =
     (case instant_of (g_start it) of
        None \<Rightarrow> True
      | Some a \<Rightarrow>
          (case instant_of (g_end it) of
             None \<Rightarrow> True
           | Some b \<Rightarrow> a < utc_us tmax \<and> utc_us tmin < b))"

definition events_list ::
  "google_calendar \<Rightarrow> datetime \<Rightarrow> datetime \<Rightarrow> error + gitem list" where
  "events_list cal tmin tmax =
     (case g_fault cal of
        Some err \<Rightarrow> Inl err
      | None \<Rightarrow> Inr (filter (\<lambda>it. gitem_overlaps it tmin tmax) (g_items cal)))"

definition events_insert :: "google_calendar \<Rightarrow> gitem \<Rightarrow> error + google_calendar" where
  "events_insert cal it =
     (case g_fault cal of
        Some err \<Rightarrow> Inl err
      | None \<Rightarrow> Inr (cal\<lparr>g_items := g_items cal @ [it]\<rparr>))"

section \<open>The Yandex client\<close>

text \<open>
  Lines 78 to 86 of \<^verbatim>\<open>get_events\<close>: a naive datetime is tagged as UTC, an aware one
  is converted with \<^verbatim>\<open>astimezone\<close>.
\<close>

definition ensure_utc :: "datetime \<Rightarrow> error + datetime" where
  "ensure_utc d =
     (case tzinfo d of
        None \<Rightarrow> Inr (replace_tzinfo d utc)
      | Some off \<Rightarrow> astimezone_utc d off)"

text \<open>
  The body of the loop over the VEVENT components: the key and the record stored under
  it. A missing summary, start or end, and a start or end that is a date, end in an
  \<^verbatim>\<open>AttributeError\<close>. Encoding to UTF-8 and back leaves a text as it is.
\<close>

definition yandex_component :: "vevent \<Rightarrow> error + (string \<times> event)" where
  "yandex_component component =
     (case summary component of
        None \<Rightarrow> Inl AttributeError
      | Some nm \<Rightarrow>
          let desc = (case vdescription component of None \<Rightarrow> [] | Some t \<Rightarrow> t) in
          (case dtstart component of
             None \<Rightarrow> Inl AttributeError
           | Some vs \<Rightarrow>
               (case dtend component of
                  None \<Rightarrow> Inl AttributeError
                | Some ve \<Rightarrow>
                    (case vs of
                       DateValue x \<Rightarrow> Inl AttributeError
                     | DateTimeValue ds \<Rightarrow>
                         (case ensure_utc ds of
                            Inl e \<Rightarrow> Inl e
                          | Inr ds' \<Rightarrow>
                              (case ve of
                                 DateValue x \<Rightarrow> Inl AttributeError
                               | DateTimeValue de \<Rightarrow>
                                   (case ensure_utc de of
                                      Inl e \<Rightarrow> Inl e
                                    | Inr de' \<Rightarrow>
                                        let start_iso = isoformat ds' in
                                        Inr (nm @ ''/'' @ start_iso,
                                             \<lparr>name = Some nm, description = desc,
                                              start = start_iso,
                                              end' = isoformat de'\<rparr>))))))))"

text \<open>The loop that fills \<^verbatim>\<open>events_data\<close>; the first exception ends it.\<close>

fun collect_events ::
  "('a \<Rightarrow> error + (string \<times> event)) \<Rightarrow> 'a list \<Rightarrow> event dict \<Rightarrow> error + event dict" where
  "collect_events f [] events_data = Inr events_data"
| "collect_events f (x # xs) events_data =
     (case f x of
        Inl e \<Rightarrow> Inl e
      | Inr (k, ev) \<Rightarrow> collect_events f xs (dict_set events_data k ev))"

definition yandex_get_events ::
  "datetime \<Rightarrow> datetime \<Rightarrow> world \<Rightarrow> (error + event dict) \<times> world" where
  "yandex_get_events s e w =
     (let w1 = emit (YandexSearch s e) w in
      case calendar_search (yandex w1) s e of
        Inl err \<Rightarrow> (Inl err, w1)
      | Inr events \<Rightarrow> (collect_events yandex_component (concat events) [], w1))"

text \<open>
  What \<^verbatim>\<open>icalendar\<close> writes for a datetime and a later fetch reads back: the
  iCalendar form has no fraction of a second; UTC is written with \<^verbatim>\<open>Z\<close>; a naive
  value and a value with another fixed offset come back as naive wall-clock times.
\<close>

definition ics_datetime :: "datetime \<Rightarrow> datetime" where
  "ics_datetime d =
     d\<lparr>microsecond := 0, tzinfo := (if tzinfo d = Some 0 then Some 0 else None)\<rparr>"

text \<open>
  \<^verbatim>\<open>add_event\<close>: the summary of the new component is the text \<^verbatim>\<open>icalendar\<close> makes
  of \<^verbatim>\<open>event_data["name"]\<close>, which is \<^verbatim>\<open>None\<close> for Python's \<^verbatim>\<open>None\<close>; its start
  and end are the parsed start and end. The window is not an argument. The random
  \<^verbatim>\<open>uid\<close> is left out.
\<close>

definition yandex_add_event :: "event \<Rightarrow> world \<Rightarrow> (error + unit) \<times> world" where
  "yandex_add_event event_data w =
     (let w1 = emit (YandexAddEvent event_data) w in
      case fromisoformat (start event_data) of
        Inl e \<Rightarrow> (Inl e, w1)
      | Inr ds \<Rightarrow>
          (case fromisoformat (end' event_data) of
             Inl e \<Rightarrow> (Inl e, w1)
           | Inr de \<Rightarrow>
               (case calendar_add_event (yandex w1)
                       \<lparr>summary = Some (fstr (name event_data)),
                        vdescription = Some (description event_data),
                        dtstart = Some (DateTimeValue (ics_datetime ds)),
                        dtend = Some (DateTimeValue (ics_datetime de))\<rparr> of
                  Inl e \<Rightarrow> (Inl e, w1)
                | Inr cal \<Rightarrow> (Inr (), w1\<lparr>yandex := cal\<rparr>))))"

section \<open>The Google client\<close>

text \<open>
  Modelled from the spec: \<^verbatim>\<open>convert_iso_timezone\<close> of \<^verbatim>\<open>functions.py\<close>, which is not
  among the sources. The spec's normalisation reads an instant without timezone
  information as UTC, converts one with timezone information to UTC, and serialises it
  as ISO 8601 with the UTC offset. The second argument is \<^verbatim>\<open>timezone.utc\<close> at both
  calls. The spec gives an absent instant no meaning; it is a \<^verbatim>\<open>TypeError\<close> here.
\<close>

definition convert_iso_timezone :: "string option \<Rightarrow> error + string" where
  "convert_iso_timezone raw =
     (case raw of
        None \<Rightarrow> Inl TypeError
      | Some s \<Rightarrow>
          (case fromisoformat s of
             Inl e \<Rightarrow> Inl e
           | Inr d \<Rightarrow> (case ensure_utc d of Inl e \<Rightarrow> Inl e | Inr u \<Rightarrow> Inr (isoformat u))))"

text \<open>The body of the loop over the items of the answer.\<close>

definition google_item :: "gitem \<Rightarrow> error + (string \<times> event)" where
  "google_item it =
     (let nm = g_summary it;
          desc = (case g_description it of None \<Rightarrow> [] | Some t \<Rightarrow> t)
      in case convert_iso_timezone (g_start it) of
           Inl e \<Rightarrow> Inl e
         | Inr start_dt \<Rightarrow>
             (case convert_iso_timezone (g_end it) of
                Inl e \<Rightarrow> Inl e
              | Inr end_dt \<Rightarrow>
                  Inr (fstr nm @ ''/'' @ start_dt,
                       \<lparr>name = nm, description = desc, start = start_dt, end' = end_dt\<rparr>)))"

text \<open>
  The bounds are sent as \<^verbatim>\<open>isoformat(timespec="seconds")\<close>, that is without their
  microseconds.
\<close>

definition truncate_seconds :: "datetime \<Rightarrow> datetime" where
  "truncate_seconds d = d\<lparr>microsecond := 0\<rparr>"

definition google_get_events ::
  "datetime \<Rightarrow> datetime \<Rightarrow> world \<Rightarrow> (error + event dict) \<times> world" where
  "google_get_events s e w =
     (let w1 = emit (GoogleList (truncate_seconds s) (truncate_seconds e)) w in
      case events_list (google w1) (truncate_seconds s) (truncate_seconds e) of
        Inl err \<Rightarrow> (Inl err, w1)
      | Inr events \<Rightarrow> (collect_events google_item events [], w1))"

text \<open>
  The test of \<^verbatim>\<open>add_event\<close>:
  \<^verbatim>\<open>start_dt < time_limit or start_dt > time_limit_future\<close>.
\<close>

definition out_of_range :: "datetime \<Rightarrow> datetime \<Rightarrow> datetime \<Rightarrow> error + bool" where
  "out_of_range start_dt lo hi =
     (case dt_less start_dt lo of
        Inl e \<Rightarrow> Inl e
      | Inr b \<Rightarrow> if b then Inr True else dt_less hi start_dt)"

text \<open>The \<^verbatim>\<open>event_body\<close> that is inserted; both times are sent with the zone UTC.\<close>

definition event_body :: "event \<Rightarrow> gitem" where
  "event_body event_data =
     \<lparr>g_summary = name event_data,
      g_description = Some (description event_data),
      g_start = Some (start event_data),
      g_end = Some (end' event_data)\<rparr>"

definition google_add_event ::
  "event \<Rightarrow> datetime \<Rightarrow> datetime \<Rightarrow> world \<Rightarrow> (error + unit) \<times> world" where
  "google_add_event event_data lo hi w =
     (let w1 = emit (GoogleAddEvent event_data) w in
      case fromisoformat (start event_data) of
        Inl e \<Rightarrow> (Inl e, w1)
      | Inr start_dt \<Rightarrow>
          (case out_of_range start_dt lo hi of
             Inl e \<Rightarrow> (Inl e, w1)
           | Inr skip \<Rightarrow>
               if skip then (Inr (), emit (PrintSkipped (name event_data) start_dt) w1)
               else
                 (case events_insert (google w1) (event_body event_data) of
                    Inl e \<Rightarrow> (Inl e, w1)
                  | Inr cal \<Rightarrow> (Inr (), w1\<lparr>google := cal\<rparr>))))"

section \<open>The synchronisation manager\<close>

text \<open>
  The two loops of \<^verbatim>\<open>sync\<close> over the missing keys: the event is looked up in
  \<^verbatim>\<open>all_events\<close> and handed to the client; an exception ends the run.
\<close>

fun add_missing ::
  "(event \<Rightarrow> world \<Rightarrow> (error + unit) \<times> world) \<Rightarrow> event dict \<Rightarrow> string list \<Rightarrow> world
     \<Rightarrow> (error + unit) \<times> world" where
  "add_missing add all_events [] w = (Inr (), w)"
| "add_missing add all_events (event_key # ks) w =
     (case map_of all_events event_key of
        None \<Rightarrow> (Inl KeyError, w)
      | Some event_data \<Rightarrow>
          (case add event_data w of
             (Inl e, w') \<Rightarrow> (Inl e, w')
           | (Inr u, w') \<Rightarrow> add_missing add all_events ks w'))"

text \<open>Lines 210 to 229 of \<^verbatim>\<open>sync\<close>: what is done with the two fetched dictionaries.\<close>

definition sync_fetched ::
  "CalendarSyncManager \<Rightarrow> event dict \<Rightarrow> event dict \<Rightarrow> world \<Rightarrow> (error + unit) \<times> world" where
  "sync_fetched m yandex_events google_events w =
     (let all_events = dict_merge yandex_events google_events;
          w1 = emit (PrintTotals (length all_events) (length yandex_events)
                       (length google_events)) w;
          yandex_missing_keys = missing_keys all_events yandex_events;
          google_missing_keys = missing_keys all_events google_events;
          w2 = emit (PrintMissingYandex yandex_missing_keys) w1
      in case add_missing yandex_add_event all_events yandex_missing_keys w2 of
           (Inl e, w3) \<Rightarrow> (Inl e, w3)
         | (Inr u, w3) \<Rightarrow>
             add_missing (\<lambda>ev. google_add_event ev (time_limit m) (time_limit_future m))
               all_events google_missing_keys (emit (PrintMissingGoogle google_missing_keys) w3))"

definition sync :: "CalendarSyncManager \<Rightarrow> world \<Rightarrow> (error + unit) \<times> world" where
  "sync m w =
     (case yandex_get_events (time_limit m) (time_limit_future m) w of
        (Inl e, w1) \<Rightarrow> (Inl e, w1)
      | (Inr yandex_events, w1) \<Rightarrow>
          (case google_get_events (time_limit m) (time_limit_future m) w1 of
             (Inl e, w2) \<Rightarrow> (Inl e, w2)
           | (Inr google_events, w2) \<Rightarrow> sync_fetched m yandex_events google_events w2))"

section \<open>Observations and example data\<close>


definition utc_datetime ::
  "int \<Rightarrow> int \<Rightarrow> int \<Rightarrow> int \<Rightarrow> int \<Rightarrow> int \<Rightarrow> int \<Rightarrow> datetime" where
  "utc_datetime y m d h mi s us =
     \<lparr>ordinal = ymd2ord y m d, hour = h, minute = mi, second = s, microsecond = us,
      tzinfo = Some 0\<rparr>"

text \<open>The window of the spec's example: now is 2024-06-15, seven days back, thirty ahead.\<close>

definition example_now :: datetime where
  "example_now = utc_datetime 2024 6 15 0 0 0 0"

definition example_manager :: CalendarSyncManager where
  "example_manager =
     \<lparr>time_limit = utc_datetime 2024 6 8 0 0 0 0,
      time_limit_future = utc_datetime 2024 7 15 23 59 59 999999\<rparr>"

definition meeting :: vevent where
  "meeting =
     \<lparr>summary = Some ''Meeting'', vdescription = None,
      dtstart = Some (DateTimeValue (utc_datetime 2024 6 10 10 0 0 0)),
      dtend = Some (DateTimeValue (utc_datetime 2024 6 10 11 0 0 0))\<rparr>"

definition world_yandex_down :: world where
  "world_yandex_down =
     \<lparr>yandex = \<lparr>y_fault = Some BackendUnavailable, y_objects = [[meeting]]\<rparr>,
      google = \<lparr>g_fault = None, g_items = []\<rparr>,
      journal = []\<rparr>"

definition world_google_missing :: world where
  "world_google_missing =
     \<lparr>yandex = \<lparr>y_fault = None, y_objects = [[meeting]]\<rparr>,
      google = \<lparr>g_fault = Some CalendarNotFound, g_items = []\<rparr>,
      journal = []\<rparr>"


definition record_two :: event where
  "record_two =
     \<lparr>name = Some ''Meeting'', description = ''room 2'',
      start = ''2024-06-10T10:00:00+00:00'', end' = ''2024-06-10T12:00:00+00:00''\<rparr>"





text \<open>Example components, items and calendars for the window above.\<close>

definition standup :: vevent where
  "standup =
     \<lparr>summary = Some ''Standup'', vdescription = None,
      dtstart = Some (DateTimeValue (utc_datetime 2024 6 7 23 0 0 0)),
      dtend = Some (DateTimeValue (utc_datetime 2024 6 8 1 0 0 0))\<rparr>"

definition world_early_yandex :: world where
  "world_early_yandex =
     \<lparr>yandex = \<lparr>y_fault = None, y_objects = [[standup]]\<rparr>,
      google = \<lparr>g_fault = None, g_items = []\<rparr>,
      journal = []\<rparr>"

definition standup_item :: gitem where
  "standup_item =
     \<lparr>g_summary = Some ''Standup'', g_description = None,
      g_start = Some ''2024-06-07T23:00:00+00:00'', g_end = Some ''2024-06-08T01:00:00+00:00''\<rparr>"

definition world_early_google :: world where
  "world_early_google =
     \<lparr>yandex = \<lparr>y_fault = None, y_objects = []\<rparr>,
      google = \<lparr>g_fault = None, g_items = [standup_item]\<rparr>,
      journal = []\<rparr>"

definition nameless_item :: gitem where
  "nameless_item =
     \<lparr>g_summary = None, g_description = None,
      g_start = Some ''2024-06-10T12:00:00+00:00'', g_end = Some ''2024-06-10T13:00:00+00:00''\<rparr>"

definition world_nameless :: world where
  "world_nameless =
     \<lparr>yandex = \<lparr>y_fault = None, y_objects = []\<rparr>,
      google = \<lparr>g_fault = None, g_items = [nameless_item]\<rparr>,
      journal = []\<rparr>"

definition meeting_longer :: vevent where
  "meeting_longer =
     \<lparr>summary = Some ''Meeting'', vdescription = Some ''room 2'',
      dtstart = Some (DateTimeValue (utc_datetime 2024 6 10 10 0 0 0)),
      dtend = Some (DateTimeValue (utc_datetime 2024 6 10 12 0 0 0))\<rparr>"

definition meeting_item :: gitem where
  "meeting_item =
     \<lparr>g_summary = Some ''Meeting'', g_description = None,
      g_start = Some ''2024-06-10T13:00:00+03:00'', g_end = Some ''2024-06-10T14:00:00+03:00''\<rparr>"

definition world_two_meetings :: world where
  "world_two_meetings =
     \<lparr>yandex = \<lparr>y_fault = None, y_objects = [[meeting], [meeting_longer]]\<rparr>,
      google = \<lparr>g_fault = None, g_items = [meeting_item]\<rparr>,
      journal = []\<rparr>"

definition forever_event :: vevent where
  "forever_event =
     \<lparr>summary = Some ''Lease'', vdescription = None,
      dtstart = Some (DateTimeValue (utc_datetime 2024 6 10 10 0 0 0)),
      dtend = Some (DateTimeValue
                (utc_datetime 9999 12 31 23 30 0 0\<lparr>tzinfo := Some (- 18000000000)\<rparr>))\<rparr>"

definition world_forever :: world where
  "world_forever =
     \<lparr>yandex = \<lparr>y_fault = None, y_objects = [[forever_event]]\<rparr>,
      google = \<lparr>g_fault = None, g_items = []\<rparr>,
      journal = []\<rparr>"

definition lunch_local :: datetime where
  "lunch_local = utc_datetime 2024 6 10 13 0 0 0\<lparr>tzinfo := Some 10800000000\<rparr>"

definition lunch_naive :: datetime where
  "lunch_naive = utc_datetime 2024 6 10 13 0 0 0\<lparr>tzinfo := None\<rparr>"

definition standup_record :: event where
  "standup_record =
     \<lparr>name = Some ''Standup'', description = [],
      start = ''2024-06-07T23:00:00+00:00'', end' = ''2024-06-08T01:00:00+00:00''\<rparr>"

definition nameless_record :: event where
  "nameless_record =
     \<lparr>name = None, description = [],
      start = ''2024-06-10T12:00:00+00:00'', end' = ''2024-06-10T13:00:00+00:00''\<rparr>"


text \<open>
  A datetime whose fields lie in the ranges of Python's \<^verbatim>\<open>datetime\<close>, and a UTC
  datetime of that kind at a whole second.
\<close>

definition valid_datetime :: "datetime \<Rightarrow> bool" where
  "valid_datetime d =
     (1 \<le> ordinal d \<and> ordinal d \<le> MAXORDINAL \<and> 0 \<le> hour d \<and> hour d \<le> 23
      \<and> 0 \<le> minute d \<and> minute d \<le> 59 \<and> 0 \<le> second d \<and> second d \<le> 59
      \<and> 0 \<le> microsecond d \<and> microsecond d \<le> 999999)"




definition regular_component :: "CalendarSyncManager \<Rightarrow> vevent \<Rightarrow> bool" where
  "regular_component m c =
     (case dtstart c of
        Some (DateTimeValue ds) \<Rightarrow>
          (case dtend c of
             Some (DateTimeValue de) \<Rightarrow>
               valid_datetime ds \<and> valid_datetime de
               \<and> utc_us ds mod 1000000 = 0 \<and> utc_us de mod 1000000 = 0
               \<and> utc_us ds < utc_us de
               \<and> utc_us ds \<noteq> utc_us (truncate_seconds (time_limit_future m))
           | _ \<Rightarrow> True)
      | _ \<Rightarrow> True)"






text \<open>An event that starts in the last second of the window.\<close>

definition late :: vevent where
  "late =
     \<lparr>summary = Some ''Late'', vdescription = None,
      dtstart = Some (DateTimeValue (utc_datetime 2024 7 15 23 59 59 0)),
      dtend = Some (DateTimeValue (utc_datetime 2024 7 16 1 0 0 0))\<rparr>"

definition late_record :: event where
  "late_record =
     \<lparr>name = Some ''Late'', description = [],
      start = ''2024-07-15T23:59:59+00:00'', end' = ''2024-07-16T01:00:00+00:00''\<rparr>"

definition world_late :: world where
  "world_late =
     \<lparr>yandex = \<lparr>y_fault = None, y_objects = [[late]]\<rparr>,
      google = \<lparr>g_fault = None, g_items = []\<rparr>,
      journal = []\<rparr>"

section \<open>Properties\<close>

subsection \<open>Dictionaries\<close>


lemma set_dict_keys_dict_set: "set (dict_keys (dict_set d k v)) = insert k (set (dict_keys d))"
  by (induction d) (force simp: dict_keys_def)+


lemma set_dict_set_subset: "set (dict_set d k v) \<subseteq> insert (k, v) (set d)"
  by (induction d) (auto split: if_splits)


lemma set_keys_fold_dict_set:
  "set (dict_keys (fold (\<lambda>(k, v) d. dict_set d k v) b a)) = set (dict_keys a) \<union> set (dict_keys b)"
proof (induction b arbitrary: a)
  case Nil
  then show ?case by (simp add: dict_keys_def)
next
  case (Cons p b)
  obtain k1 v1 where p: "p = (k1, v1)" by (cases p)
  have keys: "dict_keys (p # b) = k1 # dict_keys b"
    using p by (simp add: dict_keys_def)
  have "set (dict_keys (fold (\<lambda>(k, v) d. dict_set d k v) (p # b) a)) =
          set (dict_keys (dict_set a k1 v1)) \<union> set (dict_keys b)"
    using Cons.IH [of "dict_set a k1 v1"] p by simp
  also have "\<dots> = set (dict_keys a) \<union> set (dict_keys (p # b))"
    unfolding keys set_dict_keys_dict_set by auto
  finally show ?case .
qed

lemma set_keys_dict_merge:
  "set (dict_keys (dict_merge a b)) = set (dict_keys a) \<union> set (dict_keys b)"
  by (simp add: dict_merge_def set_keys_fold_dict_set)

lemma set_missing_keys:
  "set (missing_keys all_events own) = set (dict_keys all_events) - set (dict_keys own)"
  by (auto simp: missing_keys_def)





text \<open>
  Claim C9. The keys of the merged dictionary are the keys of the two fetched
  dictionaries together, and no key is missing on both sides at once.
\<close>

theorem missing_sets_disjoint:
  "set (dict_keys (dict_merge mapA mapB)) = set (dict_keys mapA) \<union> set (dict_keys mapB)
   \<and> set (missing_keys (dict_merge mapA mapB) mapA) \<inter> set (missing_keys (dict_merge mapA mapB) mapB) = {}"
  by (auto simp: set_missing_keys set_keys_dict_merge)

subsection \<open>The missing sets and the calls they cause\<close>




subsection \<open>The window\<close>

lemmas calendar_defs =
  ymd2ord_def ord2ymd_def days_before_year_def days_before_month_def days_in_month_def
  DAYS_BEFORE_MONTH_def DAYS_IN_MONTH_def is_leap_def MAXORDINAL_def

text \<open>
  Claim C5, amended. For offsets that are not negative, the manager's window starts at
  00:00:00 of today's date minus \<open>past_days\<close> and ends at 23:59:59.999999 of today's
  date plus \<open>future_days\<close>, both tagged UTC, whenever both dates lie between 0001-01-01
  and 9999-12-31; otherwise the constructor raises \<^verbatim>\<open>OverflowError\<close>.
\<close>

theorem window_of_init:
  assumes "0 \<le> past_days config" and "0 \<le> future_days config"
  shows "CalendarSyncManager_init now config =
           (if 0 < ordinal now - past_days config
               \<and> ordinal now + future_days config \<le> MAXORDINAL
            then Inr \<lparr>time_limit =
                        \<lparr>ordinal = ordinal now - past_days config, hour = 0, minute = 0,
                         second = 0, microsecond = 0, tzinfo = Some 0\<rparr>,
                      time_limit_future =
                        \<lparr>ordinal = ordinal now + future_days config, hour = 23, minute = 59,
                         second = 59, microsecond = 999999, tzinfo = Some 0\<rparr>\<rparr>
            else Inl OverflowError)"
  using assms
  by (auto simp: CalendarSyncManager_init_def date_add_days_def combine_def replace_tzinfo_def
      time_min_def time_max_def utc_def MAXORDINAL_def Let_def)

lemma example_ordinals:
  "ymd2ord 2024 6 15 = 739052" "ymd2ord 2024 6 8 = 739045" "ymd2ord 2024 7 15 = 739082"
  by (simp_all add: ymd2ord_def days_before_year_def days_before_month_def
      DAYS_BEFORE_MONTH_def is_leap_def)

lemma example_manager_text:
  "isoformat (time_limit example_manager) = ''2024-06-08T00:00:00+00:00''"
  "isoformat (time_limit_future example_manager) = ''2024-07-15T23:59:59.999999+00:00''"
  by code_simp+

theorem window_of_init_witness:
  "(0::int) \<le> 7 \<and> (0::int) \<le> 30
   \<and> CalendarSyncManager_init example_now \<lparr>past_days = 7, future_days = 30\<rparr> = Inr example_manager
   \<and> isoformat (time_limit example_manager) = ''2024-06-08T00:00:00+00:00''
   \<and> isoformat (time_limit_future example_manager) = ''2024-07-15T23:59:59.999999+00:00''"
  using window_of_init [of "\<lparr>past_days = 7, future_days = 30\<rparr>" example_now]
  by (simp add: example_manager_text)
     (simp add: example_now_def example_manager_def utc_datetime_def example_ordinals MAXORDINAL_def)

text \<open>
  The claim as stated, for every pair of offsets, fails: three million days ahead of
  2024-06-15 there is no date, and no window is computed.
\<close>

theorem window_overflow_counterexample:
  "(0::int) \<le> 0 \<and> (0::int) \<le> 3000000
   \<and> CalendarSyncManager_init example_now \<lparr>past_days = 0, future_days = 3000000\<rparr> = Inl OverflowError"
  by (simp add: CalendarSyncManager_init_def date_add_days_def example_now_def utc_datetime_def
      calendar_defs)

subsection \<open>A failing fetch\<close>

lemma snd_yandex_get_events: "snd (yandex_get_events s e w) = emit (YandexSearch s e) w"
  by (simp add: yandex_get_events_def Let_def split: sum.splits)

lemma snd_google_get_events:
  "snd (google_get_events s e w) = emit (GoogleList (truncate_seconds s) (truncate_seconds e)) w"
  by (simp add: google_get_events_def Let_def split: sum.splits)


text \<open>
  Claim C7. When the Yandex fetch raises, \<^verbatim>\<open>sync\<close> raises the same exception after
  the search alone: the Google calendar is not queried. When the Yandex fetch succeeds
  and the Google fetch raises, \<^verbatim>\<open>sync\<close> raises that exception after the two queries.
  In both cases the two calendars are as they were: recording an action changes the
  journal only.
\<close>

theorem fetch_failure_aborts:
  "(fst (yandex_get_events (time_limit m) (time_limit_future m) w) = Inl e \<longrightarrow>
      sync m w = (Inl e, emit (YandexSearch (time_limit m) (time_limit_future m)) w))
   \<and> (fst (yandex_get_events (time_limit m) (time_limit_future m) w) = Inr ya
      \<and> fst (google_get_events (time_limit m) (time_limit_future m)
               (emit (YandexSearch (time_limit m) (time_limit_future m)) w)) = Inl e \<longrightarrow>
      sync m w =
        (Inl e, emit (GoogleList (truncate_seconds (time_limit m))
                        (truncate_seconds (time_limit_future m)))
                  (emit (YandexSearch (time_limit m) (time_limit_future m)) w)))
   \<and> yandex (emit a w) = yandex w \<and> google (emit a w) = google w
   \<and> journal (emit a w) = journal w @ [a]"
proof -
  let ?lo = "time_limit m" and ?hi = "time_limit_future m"
  let ?w1 = "emit (YandexSearch ?lo ?hi) w"
  have y: "yandex_get_events ?lo ?hi w = (fst (yandex_get_events ?lo ?hi w), ?w1)"
    using snd_yandex_get_events [of ?lo ?hi w] by (metis prod.collapse)
  have g: "google_get_events ?lo ?hi ?w1 =
      (fst (google_get_events ?lo ?hi ?w1),
       emit (GoogleList (truncate_seconds ?lo) (truncate_seconds ?hi)) ?w1)"
    using snd_google_get_events [of ?lo ?hi ?w1] by (metis prod.collapse)
  have first: "fst (yandex_get_events ?lo ?hi w) = Inl e \<Longrightarrow> sync m w = (Inl e, ?w1)"
    unfolding sync_def by (subst y) simp
  have second: "fst (yandex_get_events ?lo ?hi w) = Inr ya \<Longrightarrow>
      fst (google_get_events ?lo ?hi ?w1) = Inl e \<Longrightarrow>
      sync m w = (Inl e, emit (GoogleList (truncate_seconds ?lo) (truncate_seconds ?hi)) ?w1)"
    unfolding sync_def by (subst y, simp, subst g, simp)
  show ?thesis
    using first second by (simp add: emit_def)
qed

lemma example_fetches:
  "fst (yandex_get_events (time_limit example_manager) (time_limit_future example_manager)
          world_yandex_down) = Inl BackendUnavailable"
  "fst (yandex_get_events (time_limit example_manager) (time_limit_future example_manager)
          world_google_missing)
     = Inr [(''Meeting/2024-06-10T10:00:00+00:00'',
            \<lparr>name = Some ''Meeting'', description = [], start = ''2024-06-10T10:00:00+00:00'',
             end' = ''2024-06-10T11:00:00+00:00''\<rparr>)]"
  "fst (google_get_events (time_limit example_manager) (time_limit_future example_manager)
          (emit (YandexSearch (time_limit example_manager) (time_limit_future example_manager))
             world_google_missing)) = Inl CalendarNotFound"
  by code_simp+

theorem fetch_failure_aborts_witness:
  "fst (sync example_manager world_yandex_down) = Inl BackendUnavailable
   \<and> yandex (snd (sync example_manager world_yandex_down)) = yandex world_yandex_down
   \<and> google (snd (sync example_manager world_yandex_down)) = google world_yandex_down
   \<and> journal (snd (sync example_manager world_yandex_down))
       = [YandexSearch (time_limit example_manager) (time_limit_future example_manager)]
   \<and> fst (sync example_manager world_google_missing) = Inl CalendarNotFound
   \<and> yandex (snd (sync example_manager world_google_missing)) = yandex world_google_missing
   \<and> google (snd (sync example_manager world_google_missing)) = google world_google_missing
   \<and> journal (snd (sync example_manager world_google_missing))
       = [YandexSearch (time_limit example_manager) (time_limit_future example_manager),
          GoogleList (truncate_seconds (time_limit example_manager))
            (truncate_seconds (time_limit_future example_manager))]"
proof -
  have a: "sync example_manager world_yandex_down =
      (Inl BackendUnavailable,
       emit (YandexSearch (time_limit example_manager) (time_limit_future example_manager))
         world_yandex_down)"
    using fetch_failure_aborts [of example_manager world_yandex_down BackendUnavailable]
      example_fetches(1) by blast
  have b: "sync example_manager world_google_missing =
      (Inl CalendarNotFound,
       emit (GoogleList (truncate_seconds (time_limit example_manager))
               (truncate_seconds (time_limit_future example_manager)))
         (emit (YandexSearch (time_limit example_manager) (time_limit_future example_manager))
            world_google_missing))"
    using fetch_failure_aborts [of example_manager world_google_missing CalendarNotFound]
      example_fetches(2,3) by blast
  show ?thesis
    unfolding a b by (simp add: emit_def world_yandex_down_def world_google_missing_def)
qed

subsection \<open>Normalisation to UTC\<close>

lemma wall_us_of_wall_us: "wall_us (of_wall_us n tz) = n"
proof -
  define a where "a = n div 1000000"
  define b where "b = a div 60"
  define c where "c = b div 60"
  have 1: "a * 1000000 + n mod 1000000 = n" unfolding a_def by (rule div_mult_mod_eq)
  have 2: "b * 60 + a mod 60 = a" unfolding b_def by (rule div_mult_mod_eq)
  have 3: "c * 60 + b mod 60 = b" unfolding c_def by (rule div_mult_mod_eq)
  have 4: "c div 24 * 24 + c mod 24 = c" by (rule div_mult_mod_eq)
  have "wall_us (of_wall_us n tz) =
      (((c div 24 * 24 + c mod 24) * 60 + b mod 60) * 60 + a mod 60) * 1000000 + n mod 1000000"
    unfolding wall_us_def of_wall_us_def a_def b_def c_def by simp
  also have "\<dots> = n" unfolding 4 3 2 1 ..
  finally show ?thesis .
qed

lemma tzinfo_of_wall_us: "tzinfo (of_wall_us n tz) = tz"
  by (simp add: of_wall_us_def)

lemma astimezone_utc_Inr:
  assumes "astimezone_utc d off = Inr u"
  shows "u = of_wall_us (wall_us d - off) (Some 0)"
  using assms by (simp add: astimezone_utc_def utc_def Let_def split: if_splits)

lemma ensure_utc_tzinfo: "ensure_utc d = Inr u \<Longrightarrow> tzinfo u = Some 0"
  by (auto simp: ensure_utc_def replace_tzinfo_def utc_def tzinfo_of_wall_us
      dest!: astimezone_utc_Inr split: option.splits)

lemma utc_us_replace_tzinfo: "tzinfo d = None \<Longrightarrow> utc_us (replace_tzinfo d utc) = utc_us d"
  by (simp add: utc_us_def replace_tzinfo_def utc_def wall_us_def)

lemma utc_us_of_wall_us: "utc_us (of_wall_us n (Some 0)) = n"
  by (simp add: utc_us_def tzinfo_of_wall_us wall_us_of_wall_us)

lemma ensure_utc_instant: "ensure_utc d = Inr u \<Longrightarrow> utc_us u = utc_us d"
proof (cases "tzinfo d")
  case None
  assume "ensure_utc d = Inr u"
  then show ?thesis using None by (auto simp: ensure_utc_def utc_us_replace_tzinfo)
next
  case (Some off)
  assume "ensure_utc d = Inr u"
  then have "u = of_wall_us (wall_us d - off) (Some 0)"
    using Some by (simp add: ensure_utc_def astimezone_utc_Inr)
  then show ?thesis using Some by (simp add: utc_us_of_wall_us) (simp add: utc_us_def)
qed

lemma yandex_component_Inr:
  assumes "yandex_component c = Inr (k, ev)"
  shows "\<exists>n ds de us ue. summary c = Some n \<and> dtstart c = Some (DateTimeValue ds)
           \<and> dtend c = Some (DateTimeValue de) \<and> ensure_utc ds = Inr us \<and> ensure_utc de = Inr ue
           \<and> k = n @ ''/'' @ isoformat us
           \<and> ev = \<lparr>name = Some n,
                   description = (case vdescription c of None \<Rightarrow> [] | Some t \<Rightarrow> t),
                   start = isoformat us, end' = isoformat ue\<rparr>"
  using assms
  by (auto simp: yandex_component_def Let_def split: option.splits dtvalue.splits sum.splits)

lemma convert_iso_timezone_Inr:
  assumes "convert_iso_timezone raw = Inr t"
  shows "\<exists>s d u. raw = Some s \<and> fromisoformat s = Inr d \<and> ensure_utc d = Inr u \<and> t = isoformat u"
  using assms by (auto simp: convert_iso_timezone_def split: option.splits sum.splits)

lemma google_item_Inr:
  assumes "google_item it = Inr (k, ev)"
  shows "\<exists>s t. convert_iso_timezone (g_start it) = Inr s \<and> convert_iso_timezone (g_end it) = Inr t
           \<and> k = fstr (g_summary it) @ ''/'' @ s
           \<and> ev = \<lparr>name = g_summary it,
                   description = (case g_description it of None \<Rightarrow> [] | Some x \<Rightarrow> x),
                   start = s, end' = t\<rparr>"
  using assms by (auto simp: google_item_def Let_def split: sum.splits)

lemma ensure_utc_naive: "tzinfo dt = None \<Longrightarrow> ensure_utc dt = Inr (dt\<lparr>tzinfo := Some 0\<rparr>)"
  by (simp add: ensure_utc_def replace_tzinfo_def utc_def)

lemma ensure_utc_aware:
  "tzinfo dt = Some off \<Longrightarrow>
   ensure_utc dt =
     (if 0 < ordinal (of_wall_us (wall_us dt - off) (Some 0))
         \<and> ordinal (of_wall_us (wall_us dt - off) (Some 0)) \<le> MAXORDINAL
      then Inr (of_wall_us (wall_us dt - off) (Some 0)) else Inl OverflowError)"
  by (simp add: ensure_utc_def astimezone_utc_def utc_def Let_def)

text \<open>
  Claim C8, amended. A start or end without timezone information keeps its wall clock
  and is tagged UTC. One with an offset is converted to the datetime with offset zero
  that denotes the same instant, provided the date of that datetime lies between
  0001-01-01 and 9999-12-31; otherwise the conversion raises \<^verbatim>\<open>OverflowError\<close>. The
  start and end stored for an event by either client are the ISO 8601 texts of such UTC
  datetimes, which denote the instants of the raw values.
\<close>

theorem normalisation_to_utc:
  "(tzinfo dt = None \<longrightarrow> ensure_utc dt = Inr (dt\<lparr>tzinfo := Some 0\<rparr>))
   \<and> (tzinfo dt = Some off \<longrightarrow>
        ensure_utc dt =
          (if 0 < ordinal (of_wall_us (wall_us dt - off) (Some 0))
              \<and> ordinal (of_wall_us (wall_us dt - off) (Some 0)) \<le> MAXORDINAL
           then Inr (of_wall_us (wall_us dt - off) (Some 0)) else Inl OverflowError)
        \<and> tzinfo (of_wall_us (wall_us dt - off) (Some 0)) = Some 0
        \<and> utc_us (of_wall_us (wall_us dt - off) (Some 0)) = utc_us dt)
   \<and> (yandex_component c = Inr (k, ev) \<longrightarrow>
        (\<exists>ds de us ue. dtstart c = Some (DateTimeValue ds) \<and> dtend c = Some (DateTimeValue de)
           \<and> ensure_utc ds = Inr us \<and> ensure_utc de = Inr ue
           \<and> start ev = isoformat us \<and> end' ev = isoformat ue
           \<and> tzinfo us = Some 0 \<and> tzinfo ue = Some 0
           \<and> utc_us us = utc_us ds \<and> utc_us ue = utc_us de))
   \<and> (google_item it = Inr (k, ev) \<longrightarrow>
        (\<exists>s t ds de us ue. g_start it = Some s \<and> g_end it = Some t
           \<and> fromisoformat s = Inr ds \<and> fromisoformat t = Inr de
           \<and> ensure_utc ds = Inr us \<and> ensure_utc de = Inr ue
           \<and> start ev = isoformat us \<and> end' ev = isoformat ue
           \<and> tzinfo us = Some 0 \<and> tzinfo ue = Some 0
           \<and> utc_us us = utc_us ds \<and> utc_us ue = utc_us de))"
proof (intro conjI impI)
  assume "tzinfo dt = None"
  then show "ensure_utc dt = Inr (dt\<lparr>tzinfo := Some 0\<rparr>)" by (rule ensure_utc_naive)
next
  assume "tzinfo dt = Some off"
  then show "ensure_utc dt =
          (if 0 < ordinal (of_wall_us (wall_us dt - off) (Some 0))
              \<and> ordinal (of_wall_us (wall_us dt - off) (Some 0)) \<le> MAXORDINAL
           then Inr (of_wall_us (wall_us dt - off) (Some 0)) else Inl OverflowError)"
    by (rule ensure_utc_aware)
next
  show "tzinfo (of_wall_us (wall_us dt - off) (Some 0)) = Some 0"
    by (rule tzinfo_of_wall_us)
next
  assume "tzinfo dt = Some off"
  then show "utc_us (of_wall_us (wall_us dt - off) (Some 0)) = utc_us dt"
    by (simp add: utc_us_of_wall_us) (simp add: utc_us_def)
next
  assume "yandex_component c = Inr (k, ev)"
  from yandex_component_Inr [OF this] obtain n ds de us ue
    where r: "dtstart c = Some (DateTimeValue ds)" "dtend c = Some (DateTimeValue de)"
      "ensure_utc ds = Inr us" "ensure_utc de = Inr ue"
      and ev: "ev = \<lparr>name = Some n,
                   description = (case vdescription c of None \<Rightarrow> [] | Some t \<Rightarrow> t),
                   start = isoformat us, end' = isoformat ue\<rparr>"
    by blast
  have "start ev = isoformat us" "end' ev = isoformat ue"
    by (simp_all add: ev)
  then show "\<exists>ds de us ue. dtstart c = Some (DateTimeValue ds) \<and> dtend c = Some (DateTimeValue de)
           \<and> ensure_utc ds = Inr us \<and> ensure_utc de = Inr ue
           \<and> start ev = isoformat us \<and> end' ev = isoformat ue
           \<and> tzinfo us = Some 0 \<and> tzinfo ue = Some 0
           \<and> utc_us us = utc_us ds \<and> utc_us ue = utc_us de"
    using r ensure_utc_tzinfo [OF r(3)] ensure_utc_tzinfo [OF r(4)]
      ensure_utc_instant [OF r(3)] ensure_utc_instant [OF r(4)]
    by blast
next
  assume "google_item it = Inr (k, ev)"
  from google_item_Inr [OF this] obtain s' t'
    where cs: "convert_iso_timezone (g_start it) = Inr s'"
      and ct: "convert_iso_timezone (g_end it) = Inr t'"
      and ev: "ev = \<lparr>name = g_summary it,
                   description = (case g_description it of None \<Rightarrow> [] | Some x \<Rightarrow> x),
                   start = s', end' = t'\<rparr>"
    by blast
  from convert_iso_timezone_Inr [OF cs] obtain s ds us
    where rs: "g_start it = Some s" "fromisoformat s = Inr ds" "ensure_utc ds = Inr us"
      "s' = isoformat us"
    by blast
  from convert_iso_timezone_Inr [OF ct] obtain t de ue
    where rt: "g_end it = Some t" "fromisoformat t = Inr de" "ensure_utc de = Inr ue"
      "t' = isoformat ue"
    by blast
  have "start ev = isoformat us" "end' ev = isoformat ue"
    by (simp_all add: ev rs rt)
  then show "\<exists>s t ds de us ue. g_start it = Some s \<and> g_end it = Some t
           \<and> fromisoformat s = Inr ds \<and> fromisoformat t = Inr de
           \<and> ensure_utc ds = Inr us \<and> ensure_utc de = Inr ue
           \<and> start ev = isoformat us \<and> end' ev = isoformat ue
           \<and> tzinfo us = Some 0 \<and> tzinfo ue = Some 0
           \<and> utc_us us = utc_us ds \<and> utc_us ue = utc_us de"
    using rs rt ensure_utc_tzinfo [OF rs(3)] ensure_utc_tzinfo [OF rt(3)]
      ensure_utc_instant [OF rs(3)] ensure_utc_instant [OF rt(3)]
    by blast
qed

lemma lunch_values:
  "tzinfo lunch_naive = None"
  "lunch_naive\<lparr>tzinfo := Some 0\<rparr> = utc_datetime 2024 6 10 13 0 0 0"
  "tzinfo lunch_local = Some 10800000000"
  "of_wall_us (wall_us lunch_local - 10800000000) (Some 0) = utc_datetime 2024 6 10 10 0 0 0"
  "ordinal (utc_datetime 2024 6 10 10 0 0 0) = 739047"
  "yandex_component meeting_longer = Inr (''Meeting/2024-06-10T10:00:00+00:00'', record_two)"
  "google_item meeting_item = Inr (''Meeting/2024-06-10T10:00:00+00:00'',
            \<lparr>name = Some ''Meeting'', description = [], start = ''2024-06-10T10:00:00+00:00'',
             end' = ''2024-06-10T11:00:00+00:00''\<rparr>)"
  by code_simp+

theorem normalisation_to_utc_witness:
  "tzinfo lunch_naive = None
   \<and> ensure_utc lunch_naive = Inr (utc_datetime 2024 6 10 13 0 0 0)
   \<and> tzinfo lunch_local = Some 10800000000
   \<and> ensure_utc lunch_local = Inr (utc_datetime 2024 6 10 10 0 0 0)
   \<and> utc_us (utc_datetime 2024 6 10 10 0 0 0) = utc_us lunch_local
   \<and> yandex_component meeting_longer = Inr (''Meeting/2024-06-10T10:00:00+00:00'', record_two)
   \<and> (\<exists>us ue. start record_two = isoformat us \<and> end' record_two = isoformat ue
         \<and> tzinfo us = Some 0 \<and> tzinfo ue = Some 0)
   \<and> google_item meeting_item = Inr (''Meeting/2024-06-10T10:00:00+00:00'',
            \<lparr>name = Some ''Meeting'', description = [], start = ''2024-06-10T10:00:00+00:00'',
             end' = ''2024-06-10T11:00:00+00:00''\<rparr>)
   \<and> (\<exists>ds us. fromisoformat ''2024-06-10T13:00:00+03:00'' = Inr ds \<and> ensure_utc ds = Inr us
         \<and> ''2024-06-10T10:00:00+00:00'' = isoformat us \<and> utc_us us = utc_us ds)"
proof -
  note n = normalisation_to_utc [where dt = lunch_naive and off = 0 and c = meeting_longer
      and it = meeting_item and k = "''Meeting/2024-06-10T10:00:00+00:00''" and ev = record_two]
  note l = normalisation_to_utc [where dt = lunch_local and off = 10800000000
      and c = meeting_longer and it = meeting_item and k = "''Meeting/2024-06-10T10:00:00+00:00''"
      and ev = "\<lparr>name = Some ''Meeting'', description = [],
                 start = ''2024-06-10T10:00:00+00:00'', end' = ''2024-06-10T11:00:00+00:00''\<rparr>"]
  have a: "ensure_utc lunch_naive = Inr (utc_datetime 2024 6 10 13 0 0 0)"
    using n lunch_values(1,2) by simp
  have b: "ensure_utc lunch_local = Inr (utc_datetime 2024 6 10 10 0 0 0)"
    "utc_us (utc_datetime 2024 6 10 10 0 0 0) = utc_us lunch_local"
    using l lunch_values(3,4,5) by (simp_all add: MAXORDINAL_def)
  have c: "\<exists>us ue. start record_two = isoformat us \<and> end' record_two = isoformat ue
         \<and> tzinfo us = Some 0 \<and> tzinfo ue = Some 0"
    using n lunch_values(6) by blast
  have d: "\<exists>ds us. fromisoformat ''2024-06-10T13:00:00+03:00'' = Inr ds \<and> ensure_utc ds = Inr us
         \<and> ''2024-06-10T10:00:00+00:00'' = isoformat us \<and> utc_us us = utc_us ds"
    using l lunch_values(7) by (auto simp: meeting_item_def)
  show ?thesis
    using a b c d lunch_values by simp
qed

lemma forever_fetch:
  "fst (yandex_get_events (time_limit example_manager) (time_limit_future example_manager)
          world_forever) = Inl OverflowError"
  "fst (sync example_manager world_forever) = Inl OverflowError"
  by code_simp+

text \<open>
  The claim as stated, for every instant with timezone information, fails: an event
  that ends at 23:30 on 9999-12-31, five hours behind UTC, has no UTC datetime, and
  fetching it raises \<^verbatim>\<open>OverflowError\<close>.
\<close>

theorem normalisation_overflow_counterexample:
  "dtend forever_event =
     Some (DateTimeValue (utc_datetime 9999 12 31 23 30 0 0\<lparr>tzinfo := Some (- 18000000000)\<rparr>))
   \<and> fst (yandex_get_events (time_limit example_manager) (time_limit_future example_manager)
          world_forever) = Inl OverflowError
   \<and> fst (sync example_manager world_forever) = Inl OverflowError"
  using forever_fetch by (simp add: forever_event_def)

subsection \<open>Identity keys\<close>

lemma collect_events_entries:
  "collect_events f xs d0 = Inr d \<Longrightarrow> (k, ev) \<in> set d \<Longrightarrow>
   (k, ev) \<in> set d0 \<or> (\<exists>x \<in> set xs. f x = Inr (k, ev))"
proof (induction xs arbitrary: d0)
  case Nil
  then show ?case by simp
next
  case (Cons x xs)
  from Cons.prems(1) obtain k1 ev1 where fx: "f x = Inr (k1, ev1)"
    and rest: "collect_events f xs (dict_set d0 k1 ev1) = Inr d"
    by (auto split: sum.splits)
  from Cons.IH [OF rest Cons.prems(2)]
  have "(k, ev) \<in> set (dict_set d0 k1 ev1) \<or> (\<exists>x \<in> set xs. f x = Inr (k, ev))" .
  then show ?case
    using set_dict_set_subset [of d0 k1 ev1] fx by auto
qed

lemma yandex_get_events_entries:
  assumes "fst (yandex_get_events s e w) = Inr d" and "(k, ev) \<in> set d"
  shows "\<exists>c. yandex_component c = Inr (k, ev)"
proof -
  from assms(1) obtain objs where "collect_events yandex_component (concat objs) [] = Inr d"
    by (auto simp: yandex_get_events_def Let_def split: sum.splits)
  from collect_events_entries [OF this assms(2)] show ?thesis by auto
qed

lemma google_get_events_entries:
  assumes "fst (google_get_events s e w) = Inr d" and "(k, ev) \<in> set d"
  shows "\<exists>it. google_item it = Inr (k, ev)"
proof -
  from assms(1) obtain its where "collect_events google_item its [] = Inr d"
    by (auto simp: google_get_events_def Let_def split: sum.splits)
  from collect_events_entries [OF this assms(2)] show ?thesis by auto
qed

lemma yandex_key_shape:
  assumes "fst (yandex_get_events s e w) = Inr d" and "(k, ev) \<in> set d"
  shows "k = fstr (name ev) @ ''/'' @ start ev \<and> (\<exists>n. name ev = Some n \<and> k = n @ ''/'' @ start ev)
      \<and> (\<exists>u. tzinfo u = Some 0 \<and> start ev = isoformat u)"
proof -
  from yandex_get_events_entries [OF assms] obtain c where "yandex_component c = Inr (k, ev)" ..
  from yandex_component_Inr [OF this] obtain n ds us ue
    where u: "ensure_utc ds = Inr us" and k: "k = n @ ''/'' @ isoformat us"
      and ev: "ev = \<lparr>name = Some n,
                   description = (case vdescription c of None \<Rightarrow> [] | Some t \<Rightarrow> t),
                   start = isoformat us, end' = isoformat ue\<rparr>"
    by blast
  have n: "name ev = Some n" and st: "start ev = isoformat us"
    by (simp_all add: ev)
  have tz: "tzinfo us = Some 0" using u by (rule ensure_utc_tzinfo)
  show ?thesis
    using n st tz k by (auto simp: fstr_def)
qed

lemma google_key_shape:
  assumes "fst (google_get_events s e w) = Inr d" and "(k, ev) \<in> set d"
  shows "k = fstr (name ev) @ ''/'' @ start ev \<and> (\<exists>u. tzinfo u = Some 0 \<and> start ev = isoformat u)"
proof -
  from google_get_events_entries [OF assms] obtain it where "google_item it = Inr (k, ev)" ..
  from google_item_Inr [OF this] obtain st t
    where c: "convert_iso_timezone (g_start it) = Inr st"
      and k: "k = fstr (g_summary it) @ ''/'' @ st"
      and ev: "ev = \<lparr>name = g_summary it,
                   description = (case g_description it of None \<Rightarrow> [] | Some x \<Rightarrow> x),
                   start = st, end' = t\<rparr>"
    by blast
  have n: "name ev = g_summary it" and st: "start ev = st"
    by (simp_all add: ev)
  from convert_iso_timezone_Inr [OF c] obtain dd u
    where "ensure_utc dd = Inr u" and "st = isoformat u" by blast
  then have "tzinfo u = Some 0 \<and> start ev = isoformat u"
    using st ensure_utc_tzinfo by simp
  then show ?thesis
    using k n st by auto
qed

text \<open>
  Claim C6. Every entry of a dictionary fetched by either client is stored under the
  name of its record (as an f-string renders it), a slash, and the start text of the
  record, which is the ISO 8601 text of a UTC datetime; on the Yandex side the name is
  always a text. Hence two fetched records with the same name and start have the same
  key, whichever client fetched them and whatever their ends and descriptions.
\<close>

theorem identity_key_shape:
  "(fst (yandex_get_events s e w) = Inr d \<and> (k, ev) \<in> set d \<longrightarrow>
      k = fstr (name ev) @ ''/'' @ start ev \<and> (\<exists>n. name ev = Some n \<and> k = n @ ''/'' @ start ev)
      \<and> (\<exists>u. tzinfo u = Some 0 \<and> start ev = isoformat u))
   \<and> (fst (google_get_events s e w) = Inr d \<and> (k, ev) \<in> set d \<longrightarrow>
      k = fstr (name ev) @ ''/'' @ start ev
      \<and> (\<exists>u. tzinfo u = Some 0 \<and> start ev = isoformat u))
   \<and> ((fst (yandex_get_events s e w) = Inr d \<or> fst (google_get_events s e w) = Inr d)
      \<and> (fst (yandex_get_events s' e' w') = Inr d' \<or> fst (google_get_events s' e' w') = Inr d')
      \<and> (k, ev) \<in> set d \<and> (k', ev') \<in> set d' \<and> name ev = name ev' \<and> start ev = start ev' \<longrightarrow>
      k = k')"
proof (intro conjI impI)
  assume "fst (yandex_get_events s e w) = Inr d \<and> (k, ev) \<in> set d"
  then have "k = fstr (name ev) @ ''/'' @ start ev \<and> (\<exists>n. name ev = Some n \<and> k = n @ ''/'' @ start ev)
      \<and> (\<exists>u. tzinfo u = Some 0 \<and> start ev = isoformat u)"
    using yandex_key_shape by blast
  then show "k = fstr (name ev) @ ''/'' @ start ev"
    and "\<exists>n. name ev = Some n \<and> k = n @ ''/'' @ start ev"
    and "\<exists>u. tzinfo u = Some 0 \<and> start ev = isoformat u"
    by blast+
next
  assume "fst (google_get_events s e w) = Inr d \<and> (k, ev) \<in> set d"
  then have "k = fstr (name ev) @ ''/'' @ start ev \<and> (\<exists>u. tzinfo u = Some 0 \<and> start ev = isoformat u)"
    using google_key_shape by blast
  then show "k = fstr (name ev) @ ''/'' @ start ev"
    and "\<exists>u. tzinfo u = Some 0 \<and> start ev = isoformat u"
    by blast+
next
  assume a: "(fst (yandex_get_events s e w) = Inr d \<or> fst (google_get_events s e w) = Inr d)
      \<and> (fst (yandex_get_events s' e' w') = Inr d' \<or> fst (google_get_events s' e' w') = Inr d')
      \<and> (k, ev) \<in> set d \<and> (k', ev') \<in> set d' \<and> name ev = name ev' \<and> start ev = start ev'"
  have 1: "k = fstr (name ev) @ ''/'' @ start ev"
    using a yandex_key_shape [of s e w d k ev] google_key_shape [of s e w d k ev] by blast
  have 2: "k' = fstr (name ev') @ ''/'' @ start ev'"
    using a yandex_key_shape [of s' e' w' d' k' ev'] google_key_shape [of s' e' w' d' k' ev']
    by blast
  show "k = k'" using 1 2 a by simp
qed

lemma two_meetings_fetches:
  "fst (yandex_get_events (time_limit example_manager) (time_limit_future example_manager)
          world_two_meetings)
     = Inr [(''Meeting/2024-06-10T10:00:00+00:00'', record_two)]"
  "fst (google_get_events (time_limit example_manager) (time_limit_future example_manager)
          world_two_meetings)
     = Inr [(''Meeting/2024-06-10T10:00:00+00:00'',
            \<lparr>name = Some ''Meeting'', description = [], start = ''2024-06-10T10:00:00+00:00'',
             end' = ''2024-06-10T11:00:00+00:00''\<rparr>)]"
  by code_simp+

theorem identity_key_shape_witness:
  "fst (yandex_get_events (time_limit example_manager) (time_limit_future example_manager)
          world_two_meetings)
     = Inr [(''Meeting/2024-06-10T10:00:00+00:00'', record_two)]
   \<and> fst (google_get_events (time_limit example_manager) (time_limit_future example_manager)
          world_two_meetings)
     = Inr [(''Meeting/2024-06-10T10:00:00+00:00'',
            \<lparr>name = Some ''Meeting'', description = [], start = ''2024-06-10T10:00:00+00:00'',
             end' = ''2024-06-10T11:00:00+00:00''\<rparr>)]
   \<and> ''Meeting/2024-06-10T10:00:00+00:00'' = fstr (name record_two) @ ''/'' @ start record_two
   \<and> (\<exists>u. tzinfo u = Some 0 \<and> start record_two = isoformat u)"
  using identity_key_shape [of "time_limit example_manager" "time_limit_future example_manager"
      world_two_meetings "[(''Meeting/2024-06-10T10:00:00+00:00'', record_two)]"
      "''Meeting/2024-06-10T10:00:00+00:00''" record_two]
    two_meetings_fetches
  by simp

text \<open>
  Claim C10. A Google item without a summary yields the key \<^verbatim>\<open>None/\<close> followed by
  the start text and a record whose name is \<^verbatim>\<open>None\<close>. For a calendar holding such an
  item, the record is the one of the merged dictionary and the one handed to the Yandex
  client's \<^verbatim>\<open>add_event\<close>, which writes a component whose summary is the text
  \<^verbatim>\<open>None\<close>.
\<close>

theorem nameless_google_event:
  "google_item \<lparr>g_summary = None, g_description = dsc, g_start = st, g_end = en\<rparr>
     = (case convert_iso_timezone st of
          Inl e \<Rightarrow> Inl e
        | Inr s \<Rightarrow>
            (case convert_iso_timezone en of
               Inl e \<Rightarrow> Inl e
             | Inr t \<Rightarrow>
                 Inr (''None/'' @ s,
                      \<lparr>name = None, description = (case dsc of None \<Rightarrow> [] | Some x \<Rightarrow> x),
                       start = s, end' = t\<rparr>)))
   \<and> fst (google_get_events (time_limit example_manager) (time_limit_future example_manager)
            world_nameless)
     = Inr [(''None/2024-06-10T12:00:00+00:00'', nameless_record)]
   \<and> dict_merge [] [(''None/2024-06-10T12:00:00+00:00'', nameless_record)]
     = [(''None/2024-06-10T12:00:00+00:00'', nameless_record)]
   \<and> sync example_manager world_nameless
     = (Inr (),
        \<lparr>yandex =
           \<lparr>y_fault = None,
            y_objects =
              [[\<lparr>summary = Some ''None'', vdescription = Some [],
                 dtstart = Some (DateTimeValue (utc_datetime 2024 6 10 12 0 0 0)),
                 dtend = Some (DateTimeValue (utc_datetime 2024 6 10 13 0 0 0))\<rparr>]]\<rparr>,
         google = \<lparr>g_fault = None, g_items = [nameless_item]\<rparr>,
         journal =
           [YandexSearch (time_limit example_manager) (time_limit_future example_manager),
            GoogleList (truncate_seconds (time_limit example_manager))
              (truncate_seconds (time_limit_future example_manager)),
            PrintTotals 1 0 1,
            PrintMissingYandex [''None/2024-06-10T12:00:00+00:00''],
            YandexAddEvent nameless_record,
            PrintMissingGoogle []]\<rparr>)"
proof -
  have general: "google_item \<lparr>g_summary = None, g_description = dsc, g_start = st, g_end = en\<rparr>
     = (case convert_iso_timezone st of
          Inl e \<Rightarrow> Inl e
        | Inr s \<Rightarrow>
            (case convert_iso_timezone en of
               Inl e \<Rightarrow> Inl e
             | Inr t \<Rightarrow>
                 Inr (''None/'' @ s,
                      \<lparr>name = None, description = (case dsc of None \<Rightarrow> [] | Some x \<Rightarrow> x),
                       start = s, end' = t\<rparr>)))"
    by (simp add: google_item_def fstr_def Let_def split: sum.splits)
  have concrete: "fst (google_get_events (time_limit example_manager)
            (time_limit_future example_manager) world_nameless)
     = Inr [(''None/2024-06-10T12:00:00+00:00'', nameless_record)]"
    "dict_merge [] [(''None/2024-06-10T12:00:00+00:00'', nameless_record)]
     = [(''None/2024-06-10T12:00:00+00:00'', nameless_record)]"
    "sync example_manager world_nameless
     = (Inr (),
        \<lparr>yandex =
           \<lparr>y_fault = None,
            y_objects =
              [[\<lparr>summary = Some ''None'', vdescription = Some [],
                 dtstart = Some (DateTimeValue (utc_datetime 2024 6 10 12 0 0 0)),
                 dtend = Some (DateTimeValue (utc_datetime 2024 6 10 13 0 0 0))\<rparr>]]\<rparr>,
         google = \<lparr>g_fault = None, g_items = [nameless_item]\<rparr>,
         journal =
           [YandexSearch (time_limit example_manager) (time_limit_future example_manager),
            GoogleList (truncate_seconds (time_limit example_manager))
              (truncate_seconds (time_limit_future example_manager)),
            PrintTotals 1 0 1,
            PrintMissingYandex [''None/2024-06-10T12:00:00+00:00''],
            YandexAddEvent nameless_record,
            PrintMissingGoogle []]\<rparr>)"
    by code_simp+
  show ?thesis
    using general concrete by simp
qed

subsection \<open>Writes outside the window\<close>

text \<open>
  Claim C2, at a failing input. The Google calendar holds an event that starts at 23:00
  on 2024-06-07, before the window, and ends inside it; the Yandex calendar is empty.
  The run hands the record to the Yandex client, which writes it: no test of the start
  against the window is made and no skip is printed. The Google client, given the same
  record, prints the skip and writes nothing.
\<close>

theorem yandex_write_outside_window:
  "dt_less (utc_datetime 2024 6 7 23 0 0 0) (time_limit example_manager) = Inr True
   \<and> fromisoformat (start standup_record) = Inr (utc_datetime 2024 6 7 23 0 0 0)
   \<and> google_add_event standup_record (time_limit example_manager)
        (time_limit_future example_manager) world_early_yandex
     = (Inr (),
        world_early_yandex
          \<lparr>journal := [GoogleAddEvent standup_record,
                       PrintSkipped (Some ''Standup'') (utc_datetime 2024 6 7 23 0 0 0)]\<rparr>)
   \<and> sync example_manager world_early_google
     = (Inr (),
        \<lparr>yandex =
           \<lparr>y_fault = None,
            y_objects =
              [[\<lparr>summary = Some ''Standup'', vdescription = Some [],
                 dtstart = Some (DateTimeValue (utc_datetime 2024 6 7 23 0 0 0)),
                 dtend = Some (DateTimeValue (utc_datetime 2024 6 8 1 0 0 0))\<rparr>]]\<rparr>,
         google = \<lparr>g_fault = None, g_items = [standup_item]\<rparr>,
         journal =
           [YandexSearch (time_limit example_manager) (time_limit_future example_manager),
            GoogleList (truncate_seconds (time_limit example_manager))
              (truncate_seconds (time_limit_future example_manager)),
            PrintTotals 1 0 1,
            PrintMissingYandex [''Standup/2024-06-07T23:00:00+00:00''],
            YandexAddEvent standup_record,
            PrintMissingGoogle []]\<rparr>)"
  by code_simp

subsection \<open>Calendar dates\<close>







subsection \<open>Writing and reading ISO 8601 text\<close>





















subsection \<open>UTC datetimes\<close>















subsection \<open>A second run\<close>


































text \<open>
  The condition on the last second of the window cannot be dropped: the Google client
  sends the upper bound without its microseconds, so an event that starts at
  23:59:59 of the last day is inserted, not returned by the next query, and inserted
  again.
\<close>

lemma late_event_inserted_again:
  "\<not> regular_component example_manager late"
  "g_items (google (snd (sync example_manager world_late))) = [event_body late_record]"
  "g_items (google (snd (sync example_manager (snd (sync example_manager world_late)))))
     = [event_body late_record, event_body late_record]"
  by code_simp+

end
